theory Spec2Isabelle
  imports Complex_Main
begin

section \<open>Token scanner: scoring, classification, metadata, store and scan cycle\<close>

text \<open>
  The development follows \<^verbatim>\<open>src/app/api/tokens/route.ts\<close> and
  \<^verbatim>\<open>src/lib/lib/database.ts\<close>. A JavaScript \<^verbatim>\<open>number\<close> that is only compared
  with constants is a \<^typ>\<open>real\<close> (every finite double is one, and the comparisons
  are exact); where the source computes with doubles, every operation is followed by
  the rounding to a double; a score and a \<^verbatim>\<open>bigint\<close> block height are
  \<^typ>\<open>int\<close>; a string is a \<^typ>\<open>string\<close>.
\<close>

subsection \<open>calculateTokenScore (route.ts, lines 209-248)\<close>

record metrics =
  ageMinutes :: real
  liquidityUSD :: real
  priceChangePercent :: real

text \<open>
  The source keeps one mutable \<^verbatim>\<open>score\<close>, adds to it in three if-chains and
  returns \<^verbatim>\<open>Math.min(30, score)\<close>. The three additions are the three
  \<^theory_text>\<open>let\<close>-bindings below, in the order of the source.
\<close>

definition calculateTokenScore :: "metrics \<Rightarrow> int" where
  "calculateTokenScore m =
     (let score0 = (0::int);
          score1 = (if ageMinutes m < 5 then score0 + 10
                    else if ageMinutes m < 15 then score0 + 8
                    else if ageMinutes m < 30 then score0 + 5
                    else score0);
          score2 = (if liquidityUSD m > 20000 then score1 + 10
                    else if liquidityUSD m > 10000 then score1 + 8
                    else if liquidityUSD m > 5000 then score1 + 6
                    else if liquidityUSD m > 2000 then score1 + 3
                    else score1);
          score3 = (if priceChangePercent m > 100 then score2 + 10
                    else if priceChangePercent m > 50 then score2 + 8
                    else if priceChangePercent m > 25 then score2 + 6
                    else if priceChangePercent m > 10 then score2 + 3
                    else score2)
      in min 30 score3)"

text \<open>The three sub-scores as the specification tabulates them.\<close>

definition age_subscore :: "real \<Rightarrow> int" where
  "age_subscore a = (if a < 5 then 10 else if a < 15 then 8 else if a < 30 then 5 else 0)"

definition liquidity_subscore :: "real \<Rightarrow> int" where
  "liquidity_subscore l =
     (if l > 20000 then 10 else if l > 10000 then 8 else if l > 5000 then 6
      else if l > 2000 then 3 else 0)"

definition momentum_subscore :: "real \<Rightarrow> int" where
  "momentum_subscore p =
     (if p > 100 then 10 else if p > 50 then 8 else if p > 25 then 6
      else if p > 10 then 3 else 0)"

subsection \<open>classifyTokenType (route.ts, lines 201-207)\<close>

text \<open>
  \<^verbatim>\<open>hookData && hookData !== "0x"\<close>: a JavaScript string is truthy when it is not
  empty. The fee is the decoded \<^verbatim>\<open>uint24\<close> of the event.
\<close>

definition classifyTokenType :: "string \<Rightarrow> int \<Rightarrow> string" where
  "classifyTokenType hookData fee =
     (if fee = 3000 then ''BASE_APP''
      else if fee = 10000 then ''ZORA''
      else if hookData \<noteq> [] \<and> hookData \<noteq> ''0x'' then ''HOOKED''
      else ''STANDARD'')"

text \<open>
  The hook payload of the specification is a byte string; the event decoder hands it
  over hex-encoded, \<^verbatim>\<open>0x\<close> followed by two digits per byte. \<open>hookPayload\<close> is the
  digit part, so the payload is empty exactly when \<open>hookPayload\<close> is.
\<close>

definition hex_encoded :: "string \<Rightarrow> bool" where
  "hex_encoded h = (take 2 h = ''0x'')"

definition hookPayload :: "string \<Rightarrow> string" where
  "hookPayload h = drop 2 h"

subsection \<open>The chain, the clock and the random source\<close>

text \<open>
  The handler talks to an RPC node, to a PostgreSQL pool, and draws random numbers.
  Their answers are inputs of the model. A failed call (a rejected promise) is
  \<open>None\<close>. The store calls of one run are numbered in the order in which they are
  issued: \<open>db_time env k\<close> is \<open>None\<close> when the \<open>k\<close>-th call fails (no connection,
  query error) and \<open>Some t\<close> when it runs, \<open>t\<close> being the value of \<^verbatim>\<open>NOW()\<close> in
  seconds. A failed statement leaves the table as it was. \<open>random env k\<close> is the
  \<open>k\<close>-th value of \<^verbatim>\<open>Math.random()\<close>, and \<open>double_of env x\<close> is the double
  nearest to the real number \<open>x\<close>, the rounding that follows every arithmetic
  operation of the source.

  \<open>getLogs\<close> is the answer of the node to a log query for a block range, and
  \<open>read_name\<close>, \<open>read_symbol\<close>, \<open>read_decimals\<close> are the answers of a token contract
  to the three calls; a call that the client library raises on before it sends
  anything never asks for them.

  The declaration of the table \<^verbatim>\<open>tokens\<close> is not among the sources. \<open>key_of\<close> is
  the normal form under which its unique index on \<^verbatim>\<open>address\<close> compares two
  addresses: the identity for a \<^verbatim>\<open>text\<close> column, lower-casing for a
  case-insensitive one.
\<close>

datatype error = DbError | RpcError | TypeError

record pool_event =
  poolId :: string
  currency0 :: string
  currency1 :: string
  fee :: int
  hookData :: string

record env =
  key_of :: "string \<Rightarrow> string"
  db_time :: "nat \<Rightarrow> int option"
  random :: "nat \<Rightarrow> real"
  double_of :: "real \<Rightarrow> real"
  getBlockNumber :: "int option"
  getLogs :: "int \<Rightarrow> int \<Rightarrow> pool_event list option"
  read_name :: "string \<Rightarrow> string option"
  read_symbol :: "string \<Rightarrow> string option"
  read_decimals :: "string \<Rightarrow> nat option"

subsection \<open>ABIs and the two calls of the client library (route.ts, lines 17-28)\<close>

text \<open>
  An entry of an ABI array as the library meets it at run time: a JavaScript string,
  which has no property \<^verbatim>\<open>type\<close>, or a parsed item, an object whose \<^verbatim>\<open>type\<close> is
  \<^verbatim>\<open>function\<close> (with its name and state mutability) or \<^verbatim>\<open>event\<close> (with its
  name).
\<close>

datatype abi_item = AbiText string | AbiFunction string string | AbiEvent string

text \<open>
  \<open>ERC20_ABI\<close> is an array of four signature strings; the source does not parse
  them. \<open>POOL_INITIALIZE_EVENT\<close> is the result of \<^verbatim>\<open>parseAbiItem\<close>.
\<close>

definition ERC20_ABI :: "abi_item list" where
  "ERC20_ABI =
     [AbiText ''function name() view returns (string)'',
      AbiText ''function symbol() view returns (string)'',
      AbiText ''function decimals() view returns (uint8)'',
      AbiText ''function totalSupply() view returns (uint256)'']"



text \<open>
  \<^verbatim>\<open>getContract\<close> of the client library (viem), which is not part of the
  sources, as far as the handler uses it: it walks over the ABI and gives the
  contract object the property \<^verbatim>\<open>read\<close> only when an item has type
  \<^verbatim>\<open>function\<close> and state mutability \<^verbatim>\<open>view\<close> or \<^verbatim>\<open>pure\<close>.
  \<open>read_defined\<close> says whether the property is there.
\<close>

fun is_read_function :: "abi_item \<Rightarrow> bool" where
  "is_read_function (AbiFunction nm mutability) = (mutability = ''view'' \<or> mutability = ''pure'')"
| "is_read_function (AbiText txt) = False"
| "is_read_function (AbiEvent nm) = False"

record contract =
  read_defined :: bool

definition getContract :: "abi_item list \<Rightarrow> contract" where
  "getContract abi = \<lparr>read_defined = list_ex is_read_function abi\<rparr>"



subsection \<open>The table of tokens (database.ts)\<close>

text \<open>One row of \<^verbatim>\<open>tokens\<close>, with the column names of the SQL text.\<close>

record token_row =
  address :: string
  symbol :: string
  name :: string
  pool_address :: string
  score :: int
  liquidity :: real
  price :: real
  price_change :: real
  age_minutes :: int
  market_cap :: real
  volume_24h :: real
  is_spiking_now :: bool
  token_type :: string
  detected_at :: int
  last_updated :: int

text \<open>
  The argument object of \<open>saveToken\<close>; the fields carry the prefix \<open>td_\<close> because
  the names of the source are those of the columns. \<open>tokenType\<close> is optional.
\<close>

record tokenData =
  td_address :: string
  td_symbol :: string
  td_name :: string
  td_poolAddress :: string
  td_score :: int
  td_liquidity :: real
  td_price :: real
  td_priceChange :: real
  td_ageMinutes :: int
  td_marketCap :: real
  td_volume24h :: real
  td_isSpikingNow :: bool
  td_tokenType :: "string option"

text \<open>
  What the handler changes: the table, the module variable \<open>lastBlockProcessed\<close>
  (\<^verbatim>\<open>0n\<close> at start), and how many store calls and random draws the run has made.
\<close>

record state =
  store :: "token_row list"
  lastBlockProcessed :: int
  db_calls :: nat
  rnd_calls :: nat

definition db_tick :: "state \<Rightarrow> state" where
  "db_tick s = s\<lparr>db_calls := db_calls s + 1\<rparr>"

text \<open>
  The row an \<^verbatim>\<open>INSERT\<close> creates. \<^verbatim>\<open>tokenData.tokenType || "UNKNOWN"\<close> replaces
  a missing and an empty type.

  Modelled from the spec: the column defaults of \<^verbatim>\<open>detected_at\<close> and
  \<^verbatim>\<open>last_updated\<close>, which the statement does not supply and the missing table
  declaration fixes; the specification sets \<open>detectedAt\<close> at the first insert and
  \<open>lastUpdated\<close> on every write.
\<close>

definition insert_row :: "int \<Rightarrow> tokenData \<Rightarrow> token_row" where
  "insert_row now td =
     \<lparr>address = td_address td, symbol = td_symbol td, name = td_name td,
      pool_address = td_poolAddress td, score = td_score td, liquidity = td_liquidity td,
      price = td_price td, price_change = td_priceChange td,
      age_minutes = td_ageMinutes td, market_cap = td_marketCap td,
      volume_24h = td_volume24h td, is_spiking_now = td_isSpikingNow td,
      token_type = (case td_tokenType td of None \<Rightarrow> ''UNKNOWN''
                    | Some t \<Rightarrow> if t = [] then ''UNKNOWN'' else t),
      detected_at = now, last_updated = now\<rparr>"

text \<open>The \<^verbatim>\<open>DO UPDATE SET\<close> list, in its order.\<close>

definition conflict_update :: "int \<Rightarrow> tokenData \<Rightarrow> token_row \<Rightarrow> token_row" where
  "conflict_update now td r =
     r\<lparr>score := td_score td, liquidity := td_liquidity td, price := td_price td,
       price_change := td_priceChange td, age_minutes := td_ageMinutes td,
       last_updated := now, is_spiking_now := td_isSpikingNow td,
       market_cap := td_marketCap td, volume_24h := td_volume24h td\<rparr>"

definition same_key :: "(string \<Rightarrow> string) \<Rightarrow> tokenData \<Rightarrow> token_row \<Rightarrow> bool" where
  "same_key k td r = (k (address r) = k (td_address td))"

text \<open>\<^verbatim>\<open>INSERT ... ON CONFLICT (address) DO UPDATE\<close> on the table.\<close>

definition upsert :: "(string \<Rightarrow> string) \<Rightarrow> int \<Rightarrow> tokenData \<Rightarrow> token_row list \<Rightarrow> token_row list" where
  "upsert k now td rows =
     (if list_ex (same_key k td) rows
      then map (\<lambda>r. if same_key k td r then conflict_update now td r else r) rows
      else rows @ [insert_row now td])"

definition saveToken :: "env \<Rightarrow> tokenData \<Rightarrow> state \<Rightarrow> (error + unit) \<times> state" where
  "saveToken env td s =
     (case db_time env (db_calls s) of
        None \<Rightarrow> (Inl DbError, db_tick s)
      | Some now \<Rightarrow> (Inr (), db_tick (s\<lparr>store := upsert (key_of env) now td (store s)\<rparr>)))"

text \<open>
  \<^verbatim>\<open>ORDER BY score DESC, detected_at DESC\<close> as an insertion sort. SQL leaves the
  order of rows that agree on both columns open; here they keep the order of the table.
\<close>

definition ranks_before :: "token_row \<Rightarrow> token_row \<Rightarrow> bool" where
  "ranks_before a b =
     (score a > score b \<or> (score a = score b \<and> detected_at a \<ge> detected_at b))"

fun insert_ranked :: "token_row \<Rightarrow> token_row list \<Rightarrow> token_row list" where
  "insert_ranked r [] = [r]"
| "insert_ranked r (x # xs) =
     (if ranks_before r x then r # x # xs else x # insert_ranked r xs)"

definition order_by_rank :: "token_row list \<Rightarrow> token_row list" where
  "order_by_rank rows = foldr insert_ranked rows []"

text \<open>
  The \<^verbatim>\<open>SELECT\<close> of \<open>getTopTokens\<close>: rows detected within the last two hours,
  ranked, at most \<open>limit\<close> of them. The computed columns \<^verbatim>\<open>id\<close> and
  \<^verbatim>\<open>age\<close> of the result are left out.
\<close>

definition visible :: "int \<Rightarrow> token_row \<Rightarrow> bool" where
  "visible now r = (detected_at r > now - 7200)"

definition top_tokens :: "int \<Rightarrow> nat \<Rightarrow> token_row list \<Rightarrow> token_row list" where
  "top_tokens now limit rows = take limit (order_by_rank (filter (visible now) rows))"

definition getTopTokens :: "env \<Rightarrow> nat \<Rightarrow> state \<Rightarrow> (error + token_row list) \<times> state" where
  "getTopTokens env limit s =
     (case db_time env (db_calls s) of
        None \<Rightarrow> (Inl DbError, db_tick s)
      | Some now \<Rightarrow> (Inr (top_tokens now limit (store s)), db_tick s))"

text \<open>
  Modelled from the spec: the type of the column \<^verbatim>\<open>age_minutes\<close>, which the
  missing table declaration fixes. The specification has a non-negative integer (a
  record detected 90 minutes ago has age 90), and PostgreSQL rounds
  \<^verbatim>\<open>EXTRACT(EPOCH FROM (NOW() - detected_at)) / 60\<close> when it stores it in an
  integer column.
\<close>

definition minutes_since :: "int \<Rightarrow> int \<Rightarrow> int" where
  "minutes_since now t = (now - t + 30) div 60"

text \<open>The \<^verbatim>\<open>UPDATE\<close> of \<open>updateTokenAges\<close> and the \<^verbatim>\<open>DELETE\<close> of \<open>cleanupOldTokens\<close>.\<close>

definition age_rows :: "int \<Rightarrow> token_row list \<Rightarrow> token_row list" where
  "age_rows now rows =
     map (\<lambda>r. if visible now r
               then r\<lparr>age_minutes := minutes_since now (detected_at r), last_updated := now\<rparr>
               else r) rows"


definition updateTokenAges :: "env \<Rightarrow> state \<Rightarrow> (error + unit) \<times> state" where
  "updateTokenAges env s =
     (case db_time env (db_calls s) of
        None \<Rightarrow> (Inl DbError, db_tick s)
      | Some now \<Rightarrow> (Inr (), db_tick (s\<lparr>store := age_rows now (store s)\<rparr>)))"


subsection \<open>getTokenMetadata (route.ts, lines 174-199)\<close>

record token_metadata =
  md_name :: string
  md_symbol :: string
  md_decimals :: nat

text \<open>
  The handle is built from \<open>ERC20_ABI\<close>. The three calls
  \<^verbatim>\<open>tokenContract.read.name()\<close>, \<^verbatim>\<open>.symbol()\<close>, \<^verbatim>\<open>.decimals()\<close> are
  evaluated while the argument of \<^verbatim>\<open>Promise.all\<close> is built: when the property
  \<^verbatim>\<open>read\<close> is undefined, the first of them raises a TypeError before any
  \<^verbatim>\<open>.catch\<close> is attached, and the outer \<^verbatim>\<open>catch\<close> returns \<^verbatim>\<open>null\<close>.
  Otherwise each read has its own \<^verbatim>\<open>.catch\<close> with a default (\<open>or_default\<close>),
  and the length check returns \<^verbatim>\<open>null\<close> as well. A string's \<^verbatim>\<open>length\<close> is its
  number of code units, here the length of the list.
\<close>

definition or_default :: "'a \<Rightarrow> 'a option \<Rightarrow> 'a" where
  "or_default d p = (case p of None \<Rightarrow> d | Some v \<Rightarrow> v)"

definition getTokenMetadata :: "env \<Rightarrow> string \<Rightarrow> token_metadata option" where
  "getTokenMetadata env tokenAddress =
     (let tokenContract = getContract ERC20_ABI
      in if \<not> read_defined tokenContract then None
      else
        let name = or_default ''Unknown Token'' (read_name env tokenAddress);
            symbol = or_default ''UNK'' (read_symbol env tokenAddress);
            decimals = or_default 18 (read_decimals env tokenAddress)
        in if length symbol > 20 \<or> length name > 100 then None
           else Some \<lparr>md_name = name, md_symbol = symbol, md_decimals = decimals\<rparr>)"

subsection \<open>processPoolEvent (route.ts, lines 108-172)\<close>

definition BASE_WETH :: string where
  "BASE_WETH = ''0x4200000000000000000000000000000000000006''"

definition BASE_USDC :: string where
  "BASE_USDC = ''0x833589fCD6eDb6E08f4c7C32D4f71b54bdA02913''"

text \<open>
  \<^verbatim>\<open>toLowerCase\<close> on the ASCII letters, which is all it does on an address.
\<close>

definition lower_char :: "char \<Rightarrow> char" where
  "lower_char c =
     (let n = (of_char c :: nat) in if 65 \<le> n \<and> n \<le> 90 then char_of (n + 32) else c)"

definition toLowerCase :: "string \<Rightarrow> string" where
  "toLowerCase str = map lower_char str"

definition isWETHPair :: "pool_event \<Rightarrow> bool" where
  "isWETHPair ev = (currency0 ev = BASE_WETH \<or> currency1 ev = BASE_WETH)"

definition isUSDCPair :: "pool_event \<Rightarrow> bool" where
  "isUSDCPair ev = (currency0 ev = BASE_USDC \<or> currency1 ev = BASE_USDC)"

definition tokenAddress :: "pool_event \<Rightarrow> string" where
  "tokenAddress ev =
     (if currency0 ev = BASE_WETH \<or> currency0 ev = BASE_USDC
      then currency1 ev else currency0 ev)"

text \<open>
  The object \<^verbatim>\<open>newToken\<close>. \<open>r\<close> is the number of random draws made before;
  the five draws of one event are taken in the order in which the source evaluates
  them: liquidity, price change, price, market cap, volume. \<open>D\<close> rounds the result
  of each operation, and the decimal literals, to a double.
\<close>

definition newToken :: "env \<Rightarrow> pool_event \<Rightarrow> nat \<Rightarrow> token_metadata \<Rightarrow> tokenData" where
  "newToken env ev r tokenData =
     (let D = double_of env;
          tokenType = classifyTokenType (hookData ev) (fee ev);
          liquidityUSD = D (D (random env r * 20000) + 5000);
          priceChangePercent = D (random env (r + 1) * 50);
          score = calculateTokenScore
            \<lparr>ageMinutes = 0, liquidityUSD = liquidityUSD,
             priceChangePercent = priceChangePercent\<rparr>
      in \<lparr>td_address = tokenAddress ev,
          td_symbol = md_symbol tokenData,
          td_name = md_name tokenData,
          td_poolAddress = poolId ev,
          td_score = score,
          td_liquidity = liquidityUSD,
          td_price = D (D (random env (r + 2) * D 0.001) + D 0.0001),
          td_priceChange = priceChangePercent,
          td_ageMinutes = 0,
          td_marketCap = D (liquidityUSD * D (D (random env (r + 3) * 10) + 5)),
          td_volume24h = D (liquidityUSD * D (D (random env (r + 4) * 2) + 0.5)),
          td_isSpikingNow = (score \<ge> 25),
          td_tokenType = Some tokenType\<rparr>)"

text \<open>
  The body of the \<^verbatim>\<open>try\<close> block. An exception is \<open>Inl\<close>; the state that comes
  with it is the state at the point where it was raised.
\<close>

definition processPoolEvent_try :: "env \<Rightarrow> pool_event \<Rightarrow> state \<Rightarrow> (error + bool) \<times> state" where
  "processPoolEvent_try env ev s =
     (if \<not> isWETHPair ev \<and> \<not> isUSDCPair ev then (Inr False, s)
      else
        case getTopTokens env 100 s of
          (Inl e, s1) \<Rightarrow> (Inl e, s1)
        | (Inr existingTokens, s1) \<Rightarrow>
            if find (\<lambda>t. toLowerCase (address t) = toLowerCase (tokenAddress ev))
                 existingTokens \<noteq> None
            then (Inr False, s1)
            else
              (case getTokenMetadata env (tokenAddress ev) of
                 None \<Rightarrow> (Inr False, s1)
               | Some tokenData \<Rightarrow>
                   (case saveToken env (newToken env ev (rnd_calls s1) tokenData)
                           (s1\<lparr>rnd_calls := rnd_calls s1 + 5\<rparr>) of
                      (Inl e, s2) \<Rightarrow> (Inl e, s2)
                    | (Inr u, s2) \<Rightarrow> (Inr True, s2))))"

text \<open>The \<^verbatim>\<open>catch\<close> block logs and returns \<^verbatim>\<open>false\<close>.\<close>

definition processPoolEvent :: "env \<Rightarrow> pool_event \<Rightarrow> state \<Rightarrow> bool \<times> state" where
  "processPoolEvent env ev s =
     (case processPoolEvent_try env ev s of
        (Inl e, s') \<Rightarrow> (False, s')
      | (Inr wasNew, s') \<Rightarrow> (wasNew, s'))"

subsection \<open>GET (route.ts, lines 33-106)\<close>

text \<open>The \<^verbatim>\<open>for\<close> loop over the events, with its counter.\<close>

fun process_logs :: "env \<Rightarrow> pool_event list \<Rightarrow> nat \<Rightarrow> state \<Rightarrow> nat \<times> state" where
  "process_logs env [] newTokensFound s = (newTokensFound, s)"
| "process_logs env (ev # logs) newTokensFound s =
     (case processPoolEvent env ev s of
        (wasNew, s') \<Rightarrow>
          process_logs env logs (if wasNew then newTokensFound + 1 else newTokensFound) s')"





subsection \<open>Notions used in the statements\<close>

text \<open>
  \<open>listed now ev rows\<close>: the \<^verbatim>\<open>find\<close> of \<open>processPoolEvent\<close> over the answer of
  \<^verbatim>\<open>getTopTokens(100)\<close> at time \<open>now\<close> finds the candidate token of \<open>ev\<close>.
\<close>

definition listed :: "int \<Rightarrow> pool_event \<Rightarrow> token_row list \<Rightarrow> bool" where
  "listed now ev rows =
     (find (\<lambda>t. toLowerCase (address t) = toLowerCase (tokenAddress ev))
        (top_tokens now 100 rows) \<noteq> None)"



subsection \<open>Sample runs\<close>

text \<open>
  A node at block 150 with no events, a store that answers at time 10000 (seconds), a
  token contract that answers Test / TST / 18, and every random draw one half.
  \<open>double_of\<close> is the identity in the samples: no sample run reaches the arithmetic.
\<close>

definition sample_env :: env where
  "sample_env =
     \<lparr>key_of = (\<lambda>a. a), db_time = (\<lambda>k. Some 10000), random = (\<lambda>k. 1 / 2),
      double_of = (\<lambda>x. x),
      getBlockNumber = Some 150,
      getLogs = (\<lambda>from to. Some []),
      read_name = (\<lambda>a. Some ''Test''), read_symbol = (\<lambda>a. Some ''TST''),
      read_decimals = (\<lambda>a. Some 18)\<rparr>"



text \<open>
  A token whose symbol has 25 characters, a token none of whose fields reads, and a
  token whose symbol alone does not read.
\<close>

definition env_long_symbol :: env where
  "env_long_symbol = sample_env\<lparr>read_symbol := (\<lambda>a. Some (replicate 25 CHR ''S''))\<rparr>"

definition env_unreadable :: env where
  "env_unreadable =
     sample_env\<lparr>read_name := (\<lambda>a. None), read_symbol := (\<lambda>a. None),
       read_decimals := (\<lambda>a. None)\<rparr>"

definition env_no_symbol :: env where
  "env_no_symbol = sample_env\<lparr>read_symbol := (\<lambda>a. None)\<rparr>"

text \<open>A record for the token \<^verbatim>\<open>0xABC\<close>, as \<open>saveToken\<close> receives one.\<close>

definition sample_tokenData :: tokenData where
  "sample_tokenData =
     \<lparr>td_address = ''0xABC'', td_symbol = ''TST'', td_name = ''Test'',
      td_poolAddress = ''0x02'', td_score = 21, td_liquidity = 15000,
      td_price = 1 / 2, td_priceChange = 25, td_ageMinutes = 0,
      td_marketCap = 150000, td_volume24h = 22500, td_isSpikingNow = False,
      td_tokenType = Some ''BASE_APP''\<rparr>"

text \<open>A row for the address \<^verbatim>\<open>0xABC\<close> detected at time \<open>t\<close>.\<close>

definition sample_row :: "int \<Rightarrow> token_row" where
  "sample_row t =
     \<lparr>address = ''0xABC'', symbol = ''TST'', name = ''Test'', pool_address = ''0x01'',
      score = 20, liquidity = 6000, price = 1, price_change = 5, age_minutes = 0,
      market_cap = 1, volume_24h = 1, is_spiking_now = False, token_type = ''STANDARD'',
      detected_at = t, last_updated = t\<rparr>"

text \<open>
  At time 10000 a row detected at time 0 is older than two hours and younger than
  four: it is in the table and not in the answer of \<open>getTopTokens\<close>. A row detected
  at time 9000 is in the answer. The cursor has its initial value.
\<close>

definition state_hidden :: state where
  "state_hidden = \<lparr>store = [sample_row 0], lastBlockProcessed = 0, db_calls = 0, rnd_calls = 0\<rparr>"

definition state_fresh :: state where
  "state_fresh = \<lparr>store = [sample_row 9000], lastBlockProcessed = 0, db_calls = 0, rnd_calls = 0\<rparr>"

definition state_empty :: state where
  "state_empty = \<lparr>store = [], lastBlockProcessed = 0, db_calls = 0, rnd_calls = 0\<rparr>"

text \<open>
  A pool event against WETH for the token \<^verbatim>\<open>0xabc\<close>, and one for a pair without
  WETH and USDC.
\<close>

definition event_abc :: pool_event where
  "event_abc = \<lparr>poolId = ''0x02'', currency0 = BASE_WETH, currency1 = ''0xabc'',
     fee = 3000, hookData = ''0x''\<rparr>"


section \<open>Properties\<close>

lemma hex_encoded_payload:
  assumes "hex_encoded h"
  shows "(h \<noteq> [] \<and> h \<noteq> ''0x'') = (hookPayload h \<noteq> [])"
proof -
  have "h = ''0x'' @ hookPayload h"
    using assms append_take_drop_id [of 2 h] by (simp add: hex_encoded_def hookPayload_def)
  then show ?thesis by (cases "hookPayload h") auto
qed

subsection \<open>The event processor, flattened\<close>

lemma processPoolEvent_flat:
  "processPoolEvent env ev s =
     (if \<not> isWETHPair ev \<and> \<not> isUSDCPair ev then (False, s)
      else case db_time env (db_calls s) of
        None \<Rightarrow> (False, db_tick s)
      | Some t1 \<Rightarrow>
          if listed t1 ev (store s) then (False, db_tick s)
          else (case getTokenMetadata env (tokenAddress ev) of
            None \<Rightarrow> (False, db_tick s)
          | Some md \<Rightarrow>
              (case db_time env (Suc (db_calls s)) of
                 None \<Rightarrow> (False, db_tick (db_tick s\<lparr>rnd_calls := rnd_calls s + 5\<rparr>))
               | Some t2 \<Rightarrow>
                   (True, db_tick (db_tick s
                      \<lparr>rnd_calls := rnd_calls s + 5,
                       store := upsert (key_of env) t2
                         (newToken env ev (rnd_calls s) md) (store s)\<rparr>)))))"
  by (simp add: processPoolEvent_def processPoolEvent_try_def getTopTokens_def saveToken_def
      db_tick_def listed_def split: option.splits)

lemma set_insert_ranked: "set (insert_ranked r xs) = insert r (set xs)"
  by (induction xs) auto

lemma length_insert_ranked: "length (insert_ranked r xs) = Suc (length xs)"
  by (induction xs) auto

lemma set_order_by_rank: "set (order_by_rank xs) = set xs"
  by (induction xs) (simp_all add: order_by_rank_def set_insert_ranked)

lemma length_order_by_rank: "length (order_by_rank xs) = length xs"
  by (induction xs) (simp_all add: order_by_rank_def length_insert_ranked)

text \<open>With at most \<open>limit\<close> visible rows, the query returns all of them.\<close>

lemma top_tokens_all_visible:
  assumes "length (filter (visible now) rows) \<le> limit"
  shows "set (top_tokens now limit rows) = {r \<in> set rows. visible now r}"
  using assms by (simp add: top_tokens_def length_order_by_rank set_order_by_rank)

lemma find_hit: "r \<in> set xs \<Longrightarrow> P r \<Longrightarrow> find P xs \<noteq> None"
  by (induction xs) auto

subsection \<open>The loop and the cycle\<close>

lemma processPoolEvent_cursor:
  "lastBlockProcessed (snd (processPoolEvent env ev s)) = lastBlockProcessed s"
  by (simp add: processPoolEvent_flat db_tick_def split: option.splits)

lemma process_logs_cursor:
  "lastBlockProcessed (snd (process_logs env logs n s)) = lastBlockProcessed s"
proof (induction logs arbitrary: n s)
  case Nil
  show ?case by simp
next
  case (Cons ev logs)
  show ?case
    using Cons.IH [of _ "snd (processPoolEvent env ev s)"]
    by (simp add: case_prod_beta processPoolEvent_cursor)
qed

lemma process_logs_append:
  "process_logs env (xs @ ys) n s =
     process_logs env ys (fst (process_logs env xs n s)) (snd (process_logs env xs n s))"
  by (induction xs arbitrary: n s) (simp_all add: case_prod_beta)

text \<open>
  The contract handle built from \<open>ERC20_ABI\<close> has no property \<^verbatim>\<open>read\<close>, so the
  metadata of no token resolves, and no event reaches \<open>saveToken\<close>.
\<close>

lemma getContract_ERC20_ABI: "read_defined (getContract ERC20_ABI) = False"
  by (simp add: getContract_def ERC20_ABI_def)

lemma getTokenMetadata_no_handle: "getTokenMetadata env a = None"
  by (simp add: getTokenMetadata_def getContract_ERC20_ABI)

lemma processPoolEvent_no_write:
  "fst (processPoolEvent env ev s) = False
   \<and> store (snd (processPoolEvent env ev s)) = store s"
  by (simp add: processPoolEvent_flat getTokenMetadata_no_handle db_tick_def
      split: option.splits)








text \<open>
  C1. For all inputs (so in particular for a non-negative integer age and non-negative
  liquidity and price change) \<open>calculateTokenScore\<close> is the sum of the age, liquidity
  and momentum sub-scores of the specification's tables, clamped to at most 30, and the
  result is an integer between 0 and 30.
\<close>

theorem calculateTokenScore_sum_of_subscores:
  "calculateTokenScore m =
     min 30 (age_subscore (ageMinutes m) + liquidity_subscore (liquidityUSD m)
             + momentum_subscore (priceChangePercent m))
   \<and> 0 \<le> calculateTokenScore m \<and> calculateTokenScore m \<le> 30"
  by (simp add: calculateTokenScore_def age_subscore_def liquidity_subscore_def
      momentum_subscore_def)

theorem calculateTokenScore_sum_of_subscores_witness:
  "calculateTokenScore \<lparr>ageMinutes = 0, liquidityUSD = 15000, priceChangePercent = 60\<rparr> = 26
   \<and> age_subscore 0 + liquidity_subscore 15000 + momentum_subscore 60 = 26"
  using calculateTokenScore_sum_of_subscores
    [of "\<lparr>ageMinutes = 0, liquidityUSD = 15000, priceChangePercent = 60\<rparr>"]
  by (simp add: age_subscore_def liquidity_subscore_def momentum_subscore_def)

text \<open>
  C5. \<open>classifyTokenType\<close> is total and returns one of the four tags BASE_APP, ZORA,
  HOOKED, STANDARD; the rules apply in first-match order: fee 3000 gives BASE_APP, else
  fee 10000 gives ZORA, else a non-empty hook payload gives HOOKED, else STANDARD. The
  fee rules come first, whatever the payload is. The payload is read from the
  hex-encoded string the event carries.
\<close>

theorem classifyTokenType_first_match:
  assumes "hex_encoded h"
  shows "classifyTokenType h f \<in> {''BASE_APP'', ''ZORA'', ''HOOKED'', ''STANDARD''}
    \<and> classifyTokenType h f =
        (if f = 3000 then ''BASE_APP''
         else if f = 10000 then ''ZORA''
         else if hookPayload h \<noteq> [] then ''HOOKED''
         else ''STANDARD'')"
  using hex_encoded_payload [OF assms] by (simp add: classifyTokenType_def)

theorem classifyTokenType_first_match_witness:
  "hex_encoded ''0xab'' \<and> hookPayload ''0xab'' \<noteq> []
   \<and> classifyTokenType ''0xab'' 3000 = ''BASE_APP''
   \<and> classifyTokenType ''0xab'' 10000 = ''ZORA''
   \<and> classifyTokenType ''0xab'' 500 = ''HOOKED''
   \<and> classifyTokenType ''0x'' 500 = ''STANDARD''"
proof -
  have h1: "hex_encoded ''0xab''" and h2: "hex_encoded ''0x''"
    by (simp_all add: hex_encoded_def)
  show ?thesis
    using h1 classifyTokenType_first_match [OF h1, of 3000]
      classifyTokenType_first_match [OF h1, of 10000]
      classifyTokenType_first_match [OF h1, of 500]
      classifyTokenType_first_match [OF h2, of 500]
    by (simp add: hookPayload_def)
qed

text \<open>
  C9, as the code has it. The score is non-increasing in \<open>ageMinutes\<close> (newer is
  better) and non-decreasing in \<open>liquidityUSD\<close> and in \<open>priceChangePercent\<close>; with two
  of the three inputs equal this is the statement for the third input alone.
\<close>

theorem calculateTokenScore_monotone:
  assumes "ageMinutes m' \<le> ageMinutes m"
    and "liquidityUSD m \<le> liquidityUSD m'"
    and "priceChangePercent m \<le> priceChangePercent m'"
  shows "calculateTokenScore m \<le> calculateTokenScore m'"
proof -
  have a: "age_subscore (ageMinutes m) \<le> age_subscore (ageMinutes m')"
    using assms(1) by (simp add: age_subscore_def)
  have l: "liquidity_subscore (liquidityUSD m) \<le> liquidity_subscore (liquidityUSD m')"
    using assms(2) by (simp add: liquidity_subscore_def)
  have p: "momentum_subscore (priceChangePercent m)
           \<le> momentum_subscore (priceChangePercent m')"
    using assms(3) by (simp add: momentum_subscore_def)
  have s: "calculateTokenScore x =
      min 30 (age_subscore (ageMinutes x) + liquidity_subscore (liquidityUSD x)
              + momentum_subscore (priceChangePercent x))" for x
    by (simp add: calculateTokenScore_def age_subscore_def liquidity_subscore_def
        momentum_subscore_def)
  show ?thesis using a l p by (simp add: s)
qed

theorem calculateTokenScore_monotone_witness:
  "calculateTokenScore \<lparr>ageMinutes = 20, liquidityUSD = 3000, priceChangePercent = 12\<rparr>
   \<le> calculateTokenScore \<lparr>ageMinutes = 4, liquidityUSD = 3000, priceChangePercent = 12\<rparr>
   \<and> calculateTokenScore \<lparr>ageMinutes = 20, liquidityUSD = 3000, priceChangePercent = 12\<rparr> = 11
   \<and> calculateTokenScore \<lparr>ageMinutes = 4, liquidityUSD = 3000, priceChangePercent = 12\<rparr> = 16"
  using calculateTokenScore_monotone
    [of "\<lparr>ageMinutes = 4, liquidityUSD = 3000, priceChangePercent = 12\<rparr>"
        "\<lparr>ageMinutes = 20, liquidityUSD = 3000, priceChangePercent = 12\<rparr>"]
  by (simp add: calculateTokenScore_def)

text \<open>
  The score falls when the age grows from 4 to 5 minutes with liquidity and price
  change fixed, so it is not non-decreasing in the age.
\<close>

theorem calculateTokenScore_age_counterexample:
  "\<not> (calculateTokenScore \<lparr>ageMinutes = 4, liquidityUSD = 0, priceChangePercent = 0\<rparr>
      \<le> calculateTokenScore \<lparr>ageMinutes = 5, liquidityUSD = 0, priceChangePercent = 0\<rparr>)"
  by (simp add: calculateTokenScore_def)



text \<open>
  C4. If the table holds a row for the candidate address, in any case of the letters,
  then processing an event for that address written in another case gives no second
  record: the event is discarded, the result is false and the table is unchanged. A
  row that the read \<^verbatim>\<open>getTopTokens(100)\<close> returns is found by the case-insensitive
  comparison, and the event is dropped there, after one store call. (For a row that
  the read does not return, one older than two hours or ranked below the first 100,
  the event goes on to the metadata resolution, which has no result for any token in
  this code, lemma \<open>getTokenMetadata_no_handle\<close>; nothing is written then either.)
\<close>

theorem processPoolEvent_dedup:
  assumes "r \<in> set (store s)"
    and "toLowerCase (address r) = toLowerCase (tokenAddress ev)"
  shows "fst (processPoolEvent env ev s) = False
    \<and> store (snd (processPoolEvent env ev s)) = store s
    \<and> (\<forall>now. (isWETHPair ev \<or> isUSDCPair ev) \<and> db_time env (db_calls s) = Some now
           \<and> r \<in> set (top_tokens now 100 (store s))
         \<longrightarrow> listed now ev (store s)
           \<and> processPoolEvent_try env ev s = (Inr False, db_tick s))"
proof -
  have v: "listed now ev (store s) \<and> processPoolEvent_try env ev s = (Inr False, db_tick s)"
    if "(isWETHPair ev \<or> isUSDCPair ev) \<and> db_time env (db_calls s) = Some now
           \<and> r \<in> set (top_tokens now 100 (store s))" for now
  proof -
    have "find (\<lambda>t. toLowerCase (address t) = toLowerCase (tokenAddress ev))
        (top_tokens now 100 (store s)) \<noteq> None"
    proof (rule find_hit)
      show "r \<in> set (top_tokens now 100 (store s))"
        using that by simp
      show "toLowerCase (address r) = toLowerCase (tokenAddress ev)"
        by (rule assms(2))
    qed
    then show ?thesis
      using that by (auto simp add: listed_def processPoolEvent_try_def getTopTokens_def)
  qed
  show ?thesis
    using v processPoolEvent_no_write [of env ev s] by blast
qed

theorem processPoolEvent_dedup_witness:
  "address (sample_row 9000) = ''0xABC'' \<and> tokenAddress event_abc = ''0xabc''
   \<and> fst (processPoolEvent sample_env event_abc state_fresh) = False
   \<and> store (snd (processPoolEvent sample_env event_abc state_fresh)) = [sample_row 9000]
   \<and> processPoolEvent_try sample_env event_abc state_fresh = (Inr False, db_tick state_fresh)
   \<and> fst (processPoolEvent sample_env event_abc state_hidden) = False
   \<and> store (snd (processPoolEvent sample_env event_abc state_hidden)) = [sample_row 0]"
proof -
  have h: "sample_row 9000 \<in> set (store state_fresh)"
    "sample_row 0 \<in> set (store state_hidden)"
    by (simp_all add: state_fresh_def state_hidden_def)
  have l: "toLowerCase (address (sample_row 9000)) = toLowerCase (tokenAddress event_abc)"
    "toLowerCase (address (sample_row 0)) = toLowerCase (tokenAddress event_abc)"
    by code_simp+
  have v: "isWETHPair event_abc" "db_time sample_env (db_calls state_fresh) = Some 10000"
    by code_simp+
  have t: "sample_row 9000 \<in> set (top_tokens 10000 100 (store state_fresh))"
    by (simp add: state_fresh_def top_tokens_def visible_def sample_row_def order_by_rank_def)
  have a: "address (sample_row 9000) = ''0xABC''" "tokenAddress event_abc = ''0xabc''"
    "store state_fresh = [sample_row 9000]" "store state_hidden = [sample_row 0]"
    by (simp_all add: sample_row_def tokenAddress_def event_abc_def BASE_WETH_def
        state_fresh_def state_hidden_def)
  show ?thesis
    using processPoolEvent_dedup [OF h(1) l(1), of sample_env]
      processPoolEvent_dedup [OF h(2) l(2), of sample_env] v t a
    by simp
qed

text \<open>
  C6. If the symbol read for the candidate token is longer than 20 characters or the
  name read is longer than 100, \<open>getTokenMetadata\<close> returns no result (a value, not an
  exception), \<open>processPoolEvent\<close> returns false for the event, and the table is
  unchanged.
\<close>

theorem invalid_metadata_discarded:
  assumes "(\<exists>y. read_symbol env (tokenAddress ev) = Some y \<and> 20 < length y)
         \<or> (\<exists>n. read_name env (tokenAddress ev) = Some n \<and> 100 < length n)"
  shows "getTokenMetadata env (tokenAddress ev) = None
    \<and> fst (processPoolEvent env ev s) = False
    \<and> store (snd (processPoolEvent env ev s)) = store s"
proof -
  have m: "getTokenMetadata env (tokenAddress ev) = None"
    using assms by (auto simp add: getTokenMetadata_def or_default_def Let_def)
  then show ?thesis
    by (simp add: processPoolEvent_flat db_tick_def split: option.splits)
qed

theorem invalid_metadata_discarded_witness:
  "length (replicate 25 CHR ''S'') = 25
   \<and> read_symbol env_long_symbol (tokenAddress event_abc) = Some (replicate 25 CHR ''S'')
   \<and> getTokenMetadata env_long_symbol (tokenAddress event_abc) = None
   \<and> fst (processPoolEvent env_long_symbol event_abc state_empty) = False
   \<and> store (snd (processPoolEvent env_long_symbol event_abc state_empty)) = []"
proof -
  have h: "read_symbol env_long_symbol (tokenAddress event_abc) = Some (replicate 25 CHR ''S'')"
    by (simp add: env_long_symbol_def sample_env_def)
  have e: "store state_empty = []" by (simp add: state_empty_def)
  show ?thesis
    using invalid_metadata_discarded [of env_long_symbol event_abc state_empty] h e
    by simp
qed

text \<open>
  C7. The specification asks for a result with the default in place of each field that does
  not read. The code has the three defaults, but it never gets to them: the handle is
  built from the unparsed \<open>ERC20_ABI\<close>, it has no property \<^verbatim>\<open>read\<close>, and
  \<open>getTokenMetadata\<close> returns no result for every token, whatever the three reads
  would answer. So it does for a token whose name and decimals read as Test and 18
  and whose symbol does not read, where the specification has Test / UNK / 18, and
  for a token none of whose fields reads. A handle built from a parsed ABI with a
  view function has the property.
\<close>

theorem getTokenMetadata_returns_null:
  "getTokenMetadata env a = None
   \<and> read_defined (getContract ERC20_ABI) = False
   \<and> read_defined (getContract [AbiFunction ''symbol'' ''view'']) = True
   \<and> read_name env_no_symbol ''0xabc'' = Some ''Test''
   \<and> read_symbol env_no_symbol ''0xabc'' = None
   \<and> read_decimals env_no_symbol ''0xabc'' = Some 18
   \<and> getTokenMetadata env_no_symbol ''0xabc'' = None
   \<and> getTokenMetadata env_unreadable ''0xabc'' = None"
proof -
  have p: "read_defined (getContract [AbiFunction ''symbol'' ''view'']) = True"
    by (simp add: getContract_def)
  have r: "read_name env_no_symbol ''0xabc'' = Some ''Test''"
    "read_symbol env_no_symbol ''0xabc'' = None"
    "read_decimals env_no_symbol ''0xabc'' = Some 18"
    by (simp_all add: env_no_symbol_def sample_env_def)
  show ?thesis
    using p r getContract_ERC20_ABI
    by (simp add: getTokenMetadata_no_handle)
qed

text \<open>
  C10. \<open>saveToken\<close> never changes \<open>detected_at\<close> of a row that is already in the
  table, whether it inserts, updates or fails. On the update path the row with the
  record's address keeps \<open>detected_at\<close> (and address, symbol, name, pool address and
  token type) and takes score, liquidity, price, price change, age, spiking flag,
  market cap and volume from the record, with \<open>last_updated\<close> the time of the write.
  \<open>detected_at\<close> is set on the insert path only. The age update leaves it as well.
\<close>

theorem saveToken_keeps_detected_at:
  "map detected_at (take (length (store s)) (store (snd (saveToken env td s))))
     = map detected_at (store s)
   \<and> (\<forall>now i. db_time env (db_calls s) = Some now \<and> i < length (store s)
          \<and> same_key (key_of env) td (store s ! i) \<longrightarrow>
        length (store (snd (saveToken env td s))) = length (store s)
        \<and> detected_at (store (snd (saveToken env td s)) ! i) = detected_at (store s ! i)
        \<and> address (store (snd (saveToken env td s)) ! i) = address (store s ! i)
        \<and> symbol (store (snd (saveToken env td s)) ! i) = symbol (store s ! i)
        \<and> name (store (snd (saveToken env td s)) ! i) = name (store s ! i)
        \<and> pool_address (store (snd (saveToken env td s)) ! i) = pool_address (store s ! i)
        \<and> token_type (store (snd (saveToken env td s)) ! i) = token_type (store s ! i)
        \<and> score (store (snd (saveToken env td s)) ! i) = td_score td
        \<and> liquidity (store (snd (saveToken env td s)) ! i) = td_liquidity td
        \<and> price (store (snd (saveToken env td s)) ! i) = td_price td
        \<and> price_change (store (snd (saveToken env td s)) ! i) = td_priceChange td
        \<and> age_minutes (store (snd (saveToken env td s)) ! i) = td_ageMinutes td
        \<and> last_updated (store (snd (saveToken env td s)) ! i) = now
        \<and> is_spiking_now (store (snd (saveToken env td s)) ! i) = td_isSpikingNow td
        \<and> market_cap (store (snd (saveToken env td s)) ! i) = td_marketCap td
        \<and> volume_24h (store (snd (saveToken env td s)) ! i) = td_volume24h td)
   \<and> (\<forall>now. db_time env (db_calls s) = Some now
          \<and> \<not> list_ex (same_key (key_of env) td) (store s) \<longrightarrow>
        store (snd (saveToken env td s)) = store s @ [insert_row now td]
        \<and> detected_at (insert_row now td) = now)
   \<and> map detected_at (store (snd (updateTokenAges env s))) = map detected_at (store s)"
proof -
  have a: "map detected_at (take (length (store s)) (store (snd (saveToken env td s))))
     = map detected_at (store s)"
    by (simp add: saveToken_def upsert_def db_tick_def conflict_update_def split: option.splits)
  have b: "length (store (snd (saveToken env td s))) = length (store s)
        \<and> store (snd (saveToken env td s)) ! i = conflict_update now td (store s ! i)"
    if "db_time env (db_calls s) = Some now" "i < length (store s)"
      "same_key (key_of env) td (store s ! i)" for now i
  proof -
    have "list_ex (same_key (key_of env) td) (store s)"
      using that(2,3) by (auto simp add: list_ex_iff)
    then show ?thesis
      using that by (simp add: saveToken_def upsert_def db_tick_def)
  qed
  have c: "store (snd (saveToken env td s)) = store s @ [insert_row now td]
        \<and> detected_at (insert_row now td) = now"
    if "db_time env (db_calls s) = Some now"
      "\<not> list_ex (same_key (key_of env) td) (store s)" for now
    using that by (simp add: saveToken_def upsert_def db_tick_def insert_row_def)
  have e: "map detected_at (store (snd (updateTokenAges env s))) = map detected_at (store s)"
    by (simp add: updateTokenAges_def age_rows_def db_tick_def o_def if_distrib
        cong: if_cong split: option.splits)
  have b': "length (store (snd (saveToken env td s))) = length (store s)
        \<and> detected_at (store (snd (saveToken env td s)) ! i) = detected_at (store s ! i)
        \<and> address (store (snd (saveToken env td s)) ! i) = address (store s ! i)
        \<and> symbol (store (snd (saveToken env td s)) ! i) = symbol (store s ! i)
        \<and> name (store (snd (saveToken env td s)) ! i) = name (store s ! i)
        \<and> pool_address (store (snd (saveToken env td s)) ! i) = pool_address (store s ! i)
        \<and> token_type (store (snd (saveToken env td s)) ! i) = token_type (store s ! i)
        \<and> score (store (snd (saveToken env td s)) ! i) = td_score td
        \<and> liquidity (store (snd (saveToken env td s)) ! i) = td_liquidity td
        \<and> price (store (snd (saveToken env td s)) ! i) = td_price td
        \<and> price_change (store (snd (saveToken env td s)) ! i) = td_priceChange td
        \<and> age_minutes (store (snd (saveToken env td s)) ! i) = td_ageMinutes td
        \<and> last_updated (store (snd (saveToken env td s)) ! i) = now
        \<and> is_spiking_now (store (snd (saveToken env td s)) ! i) = td_isSpikingNow td
        \<and> market_cap (store (snd (saveToken env td s)) ! i) = td_marketCap td
        \<and> volume_24h (store (snd (saveToken env td s)) ! i) = td_volume24h td"
    if "db_time env (db_calls s) = Some now \<and> i < length (store s)
          \<and> same_key (key_of env) td (store s ! i)" for now i
    using b [of now i] that by (simp add: conflict_update_def)
  have c': "store (snd (saveToken env td s)) = store s @ [insert_row now td]
        \<and> detected_at (insert_row now td) = now"
    if "db_time env (db_calls s) = Some now
          \<and> \<not> list_ex (same_key (key_of env) td) (store s)" for now
    using c [of now] that by blast
  show ?thesis
    using a b' c' e by blast
qed

theorem saveToken_keeps_detected_at_witness:
  "map detected_at (store state_hidden) = [0]
   \<and> map detected_at (store (snd (saveToken sample_env sample_tokenData state_hidden))) = [0]
   \<and> last_updated (store (snd (saveToken sample_env sample_tokenData state_hidden)) ! 0) = 10000
   \<and> score (store (snd (saveToken sample_env sample_tokenData state_hidden)) ! 0) = 21"
proof -
  have h: "db_time sample_env (db_calls state_hidden) = Some 10000"
    "(0::nat) < length (store state_hidden)"
    "same_key (key_of sample_env) sample_tokenData (store state_hidden ! 0)"
    "td_score sample_tokenData = 21"
    "map detected_at (store state_hidden) = [0]"
    by code_simp+
  have l: "length (store (snd (saveToken sample_env sample_tokenData state_hidden))) = 1"
    using saveToken_keeps_detected_at [of state_hidden sample_env sample_tokenData] h
    by (simp add: state_hidden_def)
  then obtain r where r: "store (snd (saveToken sample_env sample_tokenData state_hidden)) = [r]"
    by (cases "store (snd (saveToken sample_env sample_tokenData state_hidden))") auto
  show ?thesis
    using saveToken_keeps_detected_at [of state_hidden sample_env sample_tokenData] h r
    by (simp add: state_hidden_def)
qed



end
